theory Spec2Isabelle
  imports Complex_Main "HOL-Library.Word"
begin

section \<open>The SDL painter of SuperTux (src/video/sdl/sdl_painter.cpp)\<close>

text \<open>
  The painter turns draw requests into calls of the SDL renderer. The embedding keeps
  the functions of \<^verbatim>\<open>sdl_painter.cpp\<close> under their own names, and returns the calls a
  function makes on the renderer, and the warnings it logs, as a list in the order in
  which they happen.

  \<^item> A C++ \<^verbatim>\<open>int\<close> is an \<^typ>\<open>int\<close>: signed overflow is undefined in C++, and the
    coordinates of textures and screens are far from the ends of the 32-bit range.
    Integer division truncates towards zero (\<open>c_div\<close>).
  \<^item> A \<^verbatim>\<open>float\<close> is an exact rational number (\<^typ>\<open>rat\<close>): the rounding of IEEE
    arithmetic is not modelled. \<^verbatim>\<open>static_cast<int>\<close> of a float truncates towards zero
    (\<open>c_trunc\<close>).
  \<^item> A \<^verbatim>\<open>Uint8\<close> is an 8-bit word. A cast to \<^verbatim>\<open>Uint8\<close> whose value C++ leaves undefined
    (the truncated number is outside \<open>0..255\<close>, or the float is not finite) is \<open>None\<close>.
  \<^item> An \<^verbatim>\<open>assert\<close> that fails is the error \<open>AssertionFailed\<close>.
\<close>

subsection \<open>Integer rectangles\<close>

text \<open>
  Modelled from the spec: the class \<^verbatim>\<open>Rect\<close> and \<^verbatim>\<open>Size\<close> (math/rect.hpp, math/size.hpp)
  and \<^verbatim>\<open>math::positive_mod\<close> (math/util.hpp) are used by the painter but are not among
  the sources. \<^verbatim>\<open>Rect\<close> is the integer rectangle of the spec's data model: two corners
  (the field \<^verbatim>\<open>top\<close> is \<open>top_y\<close> here), width and height their differences, empty when
  it has no extent on an axis, half-open containment of a point, containment of a
  rectangle by comparing the four edges. \<^verbatim>\<open>positive_mod\<close> is the floored modulo that
  wraps a coordinate into \<open>[0, m)\<close>.
\<close>

record Size =
  width :: int
  height :: int

record Rect =
  left :: int
  top_y :: int
  right :: int
  bottom :: int

text \<open>
  The value of a C++ \<^verbatim>\<open>int\<close> expression: the mathematical result wrapped around into
  the 32-bit two's-complement range.
\<close>

definition wrap_int :: "int \<Rightarrow> int" where
  "wrap_int v = (v + 2147483648) mod 4294967296 - 2147483648"

definition mk_rect :: "int \<Rightarrow> int \<Rightarrow> int \<Rightarrow> int \<Rightarrow> Rect" where
  "mk_rect l t r b = \<lparr>left = l, top_y = t, right = r, bottom = b\<rparr>"

definition rect_from_size :: "int \<Rightarrow> int \<Rightarrow> Size \<Rightarrow> Rect" where
  "rect_from_size l t s = mk_rect l t (wrap_int (l + width s)) (wrap_int (t + height s))"

definition get_width :: "Rect \<Rightarrow> int" where
  "get_width r = wrap_int (right r - left r)"

definition get_height :: "Rect \<Rightarrow> int" where
  "get_height r = wrap_int (bottom r - top_y r)"

definition get_size :: "Rect \<Rightarrow> Size" where
  "get_size r = \<lparr>width = get_width r, height = get_height r\<rparr>"

text \<open>
  \<open>int32\<close> holds of the integers a C++ \<^verbatim>\<open>int\<close> can hold, \<open>int_rect\<close> of the rectangles
  whose four coordinates, width and height are such integers.
\<close>

definition int32 :: "int \<Rightarrow> bool" where
  "int32 v = (- 2147483648 \<le> v \<and> v \<le> 2147483647)"

definition int_rect :: "Rect \<Rightarrow> bool" where
  "int_rect r =
     (int32 (left r) \<and> int32 (top_y r) \<and> int32 (right r) \<and> int32 (bottom r) \<and>
      int32 (right r - left r) \<and> int32 (bottom r - top_y r))"

definition empty_rect :: "Rect \<Rightarrow> bool" where
  "empty_rect r = (get_width r \<le> 0 \<or> get_height r \<le> 0)"

definition contains_point :: "Rect \<Rightarrow> int \<Rightarrow> int \<Rightarrow> bool" where
  "contains_point r x y = (left r \<le> x \<and> x < right r \<and> top_y r \<le> y \<and> y < bottom r)"

definition contains_rect :: "Rect \<Rightarrow> Rect \<Rightarrow> bool" where
  "contains_rect r other =
     (left r \<le> left other \<and> right other \<le> right r \<and>
      top_y r \<le> top_y other \<and> bottom other \<le> bottom r)"

definition positive_mod :: "int \<Rightarrow> int \<Rightarrow> int" where
  "positive_mod v m = v mod m"

text \<open>
  The division of two C++ ints: the quotient is truncated towards zero.
\<close>

definition c_div :: "int \<Rightarrow> int \<Rightarrow> int" where
  "c_div a b = sgn a * sgn b * (\<bar>a\<bar> div \<bar>b\<bar>)"

subsection \<open>Floats, bytes, colours and the calls on the renderer\<close>

type_synonym Uint8 = "8 word"

definition c_trunc :: "rat \<Rightarrow> int" where
  "c_trunc v = (if 0 \<le> v then \<lfloor>v\<rfloor> else \<lceil>v\<rceil>)"

definition to_Uint8 :: "rat \<Rightarrow> Uint8 option" where
  "to_Uint8 v = (if 0 \<le> c_trunc v \<and> c_trunc v \<le> 255 then Some (word_of_int (c_trunc v)) else None)"

record Vector =
  vec_x :: rat
  vec_y :: rat

record Rectf =
  p1 :: Vector
  p2 :: Vector

record Color =
  red :: rat
  green :: rat
  blue :: rat
  alpha :: rat

record SDL_Rect =
  sdl_x :: int
  sdl_y :: int
  sdl_w :: int
  sdl_h :: int

text \<open>
  The blend factors are \<^verbatim>\<open>GLenum\<close> values with the numbers OpenGL gives them, and
  \<^verbatim>\<open>SDL_BlendMode\<close> is SDL's enumeration.
\<close>

type_synonym GLenum = "32 word"

definition GL_ZERO :: GLenum where "GL_ZERO = 0"

definition GL_ONE :: GLenum where "GL_ONE = 1"

definition GL_SRC_ALPHA :: GLenum where "GL_SRC_ALPHA = 0x0302"

definition GL_ONE_MINUS_SRC_ALPHA :: GLenum where "GL_ONE_MINUS_SRC_ALPHA = 0x0303"

definition GL_DST_COLOR :: GLenum where "GL_DST_COLOR = 0x0306"

record Blend =
  sfactor :: GLenum
  dfactor :: GLenum

datatype SDL_BlendMode =
  SDL_BLENDMODE_NONE | SDL_BLENDMODE_BLEND | SDL_BLENDMODE_ADD | SDL_BLENDMODE_MOD

text \<open>
  What a painter operation does to the outside: a call of the SDL renderer with its
  arguments, or a warning written with \<^verbatim>\<open>log_warning\<close>. \<open>fill_rects\<close>, \<open>draw_colors\<close>
  and \<open>draw_lines\<close> read the rectangles filled one by one, the colours set and the lines
  drawn off such a list.
\<close>

datatype effect =
    SDL_SetRenderDrawBlendMode SDL_BlendMode
  | SDL_SetRenderDrawColor "Uint8 option" "Uint8 option" "Uint8 option" "Uint8 option"
  | SDL_RenderFillRect SDL_Rect
  | SDL_RenderFillRects "SDL_Rect list"
  | SDL_RenderDrawLine int int int int
  | SDL_RenderClear
  | SDL_RenderSetClipRect "SDL_Rect option"
  | SDL_RenderReadPixels "SDL_Rect option"
  | Warn_unknown_blend GLenum GLenum
  | Warn_set_clip_rect_failed string
  | Warn_clear_clip_rect_failed string
  | Warn_failed_to_read_pixels string



definition draw_lines :: "effect list \<Rightarrow> (int \<times> int \<times> int \<times> int) list" where
  "draw_lines es =
     concat (map (\<lambda>e. case e of SDL_RenderDrawLine a b c d \<Rightarrow> [(a, b, c, d)] | _ \<Rightarrow> []) es)"


subsection \<open>The blend resolver\<close>

definition blend2sdl :: "Blend \<Rightarrow> SDL_BlendMode \<times> effect list" where
  "blend2sdl blend =
     (if sfactor blend = GL_ONE \<and> dfactor blend = GL_ZERO then (SDL_BLENDMODE_NONE, [])
      else if sfactor blend = GL_SRC_ALPHA \<and> dfactor blend = GL_ONE_MINUS_SRC_ALPHA
        then (SDL_BLENDMODE_BLEND, [])
      else if sfactor blend = GL_SRC_ALPHA \<and> dfactor blend = GL_ONE then (SDL_BLENDMODE_ADD, [])
      else if sfactor blend = GL_DST_COLOR \<and> dfactor blend = GL_ZERO then (SDL_BLENDMODE_MOD, [])
      else (SDL_BLENDMODE_BLEND, [Warn_unknown_blend (sfactor blend) (dfactor blend)]))"

subsection \<open>The wraparound renderer\<close>

datatype error = AssertionFailed | DivisionByZero

text \<open>
  \<^verbatim>\<open>intersect\<close>: the part of \<open>srcrect\<close> inside \<open>imgrect\<close>, then the parts of it above,
  left of, right of and below \<open>imgrect\<close>.
\<close>

definition intersect :: "Rect \<Rightarrow> Rect \<Rightarrow> Rect \<times> Rect \<times> Rect \<times> Rect \<times> Rect" where
  "intersect srcrect imgrect =
     (mk_rect (max (left srcrect) (left imgrect)) (max (top_y srcrect) (top_y imgrect))
              (min (right srcrect) (right imgrect)) (min (bottom srcrect) (bottom imgrect)),
      mk_rect (left srcrect) (top_y srcrect)
              (right srcrect) (top_y imgrect),
      mk_rect (left srcrect) (max (top_y srcrect) (top_y imgrect))
              (left imgrect) (min (bottom srcrect) (bottom imgrect)),
      mk_rect (right imgrect) (max (top_y srcrect) (top_y imgrect))
              (right srcrect) (min (bottom srcrect) (bottom imgrect)),
      mk_rect (left srcrect) (bottom imgrect)
              (right srcrect) (bottom srcrect))"

text \<open>
  \<^verbatim>\<open>relative_map\<close>: the image in \<open>dstrect\<close> of the part \<open>inside\<close> of \<open>srcrect\<close>. Every
  operation on \<^verbatim>\<open>int\<close> wraps around. The source has two assertions: a build without
  \<^verbatim>\<open>NDEBUG\<close> (\<open>ndebug = False\<close>) stops at a failed one, a build with it
  (\<open>ndebug = True\<close>) does not check them. A division by a width or height of zero,
  which stops the C++ program, is an error of its own.
\<close>

definition relative_map :: "bool \<Rightarrow> Rect \<Rightarrow> Rect \<Rightarrow> Rect \<Rightarrow> error + Rect" where
  "relative_map ndebug inside srcrect dstrect =
     (if \<not> ndebug \<and> \<not> contains_rect srcrect inside then Inl AssertionFailed
      else if get_width srcrect = 0 \<or> get_height srcrect = 0 then Inl DivisionByZero
      else
        let result = mk_rect
              (wrap_int (left dstrect +
                 wrap_int (c_div (wrap_int (wrap_int (left inside - left srcrect) * get_width dstrect))
                                 (get_width srcrect))))
              (wrap_int (top_y dstrect +
                 wrap_int (c_div (wrap_int (wrap_int (top_y inside - top_y srcrect) * get_height dstrect))
                                 (get_height srcrect))))
              (wrap_int (left dstrect +
                 wrap_int (c_div (wrap_int (wrap_int (right inside - left srcrect) * get_width dstrect))
                                 (get_width srcrect))))
              (wrap_int (top_y dstrect +
                 wrap_int (c_div (wrap_int (wrap_int (bottom inside - top_y srcrect) * get_height dstrect))
                                 (get_height srcrect))))
        in if \<not> ndebug \<and> \<not> contains_rect dstrect result then Inl AssertionFailed else Inr result)"

text \<open>
  \<^verbatim>\<open>render_texture\<close> returns the calls of \<^verbatim>\<open>SDL_RenderCopy\<close> it makes, each as its pair
  of source and destination rectangle. The function calls itself, so the model counts
  the depth of the recursion: \<open>fuel\<close> is the number of nested calls allowed. A run is
  one of: the recursion is deeper than the fuel allows (\<open>None\<close>), an assertion or a
  division by zero stops it (\<open>Some (Inl e)\<close>), or it returns after the calls \<open>bs\<close>
  (\<open>Some (Inr bs)\<close>). \<open>and_then\<close> runs one part after another; \<open>new_srcrect\<close> is the
  rectangle the loop over the four remainders builds with \<^verbatim>\<open>positive_mod\<close>, which divides
  by the width and the height of \<open>imgrect\<close>.
\<close>

type_synonym blits = "(Rect \<times> Rect) list"

definition and_then :: "(error + 'a list) option \<Rightarrow> (error + 'a list) option \<Rightarrow> (error + 'a list) option" where
  "and_then a b =
     (case a of
        None \<Rightarrow> None
      | Some (Inl e) \<Rightarrow> Some (Inl e)
      | Some (Inr xs) \<Rightarrow>
          (case b of
             None \<Rightarrow> None
           | Some (Inl e) \<Rightarrow> Some (Inl e)
           | Some (Inr ys) \<Rightarrow> Some (Inr (xs @ ys))))"

definition new_srcrect :: "Rect \<Rightarrow> Rect \<Rightarrow> Rect" where
  "new_srcrect imgrect rect =
     rect_from_size (positive_mod (left rect) (get_width imgrect))
                    (positive_mod (top_y rect) (get_height imgrect))
                    (get_size rect)"

fun render_texture :: "bool \<Rightarrow> nat \<Rightarrow> Rect \<Rightarrow> Rect \<Rightarrow> Rect \<Rightarrow> (error + blits) option" where
  "render_texture ndebug 0 imgrect srcrect dstrect = None"
| "render_texture ndebug (Suc fuel) imgrect srcrect dstrect =
     (if \<not> ndebug \<and> \<not> contains_point imgrect (left srcrect) (top_y srcrect)
      then Some (Inl AssertionFailed)
      else if empty_rect srcrect \<or> empty_rect dstrect then Some (Inr [])
      else if contains_rect imgrect srcrect then Some (Inr [(srcrect, dstrect)])
      else
        (case intersect srcrect imgrect of
           (inside, rest0, rest1, rest2, rest3) \<Rightarrow>
             foldl
               (\<lambda>acc rect.
                  and_then acc
                    (if get_width imgrect = 0 \<or> get_height imgrect = 0 then Some (Inl DivisionByZero)
                     else
                       (case relative_map ndebug rect srcrect dstrect of
                          Inl e \<Rightarrow> Some (Inl e)
                        | Inr d \<Rightarrow> render_texture ndebug fuel imgrect (new_srcrect imgrect rect) d)))
               (case relative_map ndebug inside srcrect dstrect of
                  Inl e \<Rightarrow> Some (Inl e)
                | Inr d \<Rightarrow> render_texture ndebug fuel imgrect inside d)
               [rest0, rest1, rest2, rest3]))"

text \<open>
  The two steps of the body of \<^verbatim>\<open>render_texture\<close>: \<open>render_part\<close> maps a part into the
  destination and renders it; \<open>render_rest\<close> is one turn of the loop over the four
  remainders.
\<close>

definition render_part :: "bool \<Rightarrow> nat \<Rightarrow> Rect \<Rightarrow> Rect \<Rightarrow> Rect \<Rightarrow> Rect \<Rightarrow> Rect \<Rightarrow> (error + blits) option" where
  "render_part ndebug fuel imgrect srcrect dstrect rect new_src =
     (case relative_map ndebug rect srcrect dstrect of
        Inl e \<Rightarrow> Some (Inl e)
      | Inr d \<Rightarrow> render_texture ndebug fuel imgrect new_src d)"

definition render_rest :: "bool \<Rightarrow> nat \<Rightarrow> Rect \<Rightarrow> Rect \<Rightarrow> Rect \<Rightarrow> Rect \<Rightarrow> (error + blits) option" where
  "render_rest ndebug fuel imgrect srcrect dstrect rect =
     (if get_width imgrect = 0 \<or> get_height imgrect = 0 then Some (Inl DivisionByZero)
      else render_part ndebug fuel imgrect srcrect dstrect rect (new_srcrect imgrect rect))"

subsection \<open>The wraparound renderer over the mathematical integers\<close>

text \<open>
  The functions whose names end in \<open>_Z\<close> are the functions of the source computed over
  the mathematical integers: no operation wraps around, and every assertion is checked.
  They are the reference of the proofs; the functions of the painter agree with them
  on arguments for which no operation overflows.
\<close>

definition rect_from_size_Z :: "int \<Rightarrow> int \<Rightarrow> Size \<Rightarrow> Rect" where
  "rect_from_size_Z l t s = mk_rect l t (l + width s) (t + height s)"

definition get_width_Z :: "Rect \<Rightarrow> int" where
  "get_width_Z r = right r - left r"

definition get_height_Z :: "Rect \<Rightarrow> int" where
  "get_height_Z r = bottom r - top_y r"

definition get_size_Z :: "Rect \<Rightarrow> Size" where
  "get_size_Z r = \<lparr>width = get_width_Z r, height = get_height_Z r\<rparr>"

definition empty_rect_Z :: "Rect \<Rightarrow> bool" where
  "empty_rect_Z r = (get_width_Z r \<le> 0 \<or> get_height_Z r \<le> 0)"

text \<open>
  \<^verbatim>\<open>relative_map\<close>, \<^verbatim>\<open>new_srcrect\<close> and \<^verbatim>\<open>render_texture\<close> over the mathematical
  integers, with both assertions checked. \<open>render_texture_Z\<close> keeps a record of the parts
  the recursion ends in: a part \<open>Copied s d\<close> is a call of \<^verbatim>\<open>SDL_RenderCopy\<close> from \<open>s\<close> to
  \<open>d\<close>; a part \<open>Skipped s d\<close> is a return at the test \<^verbatim>\<open>dstrect.empty()\<close> with a source
  rectangle \<open>s\<close> that is not empty, where the source draws nothing. \<open>copies\<close> are the calls
  among the parts, and \<open>drawn\<close> turns an outcome of \<open>render_texture_Z\<close> into the outcome
  the painter shows.
\<close>

definition relative_map_Z :: "Rect \<Rightarrow> Rect \<Rightarrow> Rect \<Rightarrow> error + Rect" where
  "relative_map_Z inside srcrect dstrect =
     (if \<not> contains_rect srcrect inside then Inl AssertionFailed
      else if get_width_Z srcrect = 0 \<or> get_height_Z srcrect = 0 then Inl DivisionByZero
      else
        let result = mk_rect
              (left dstrect + c_div ((left inside - left srcrect) * get_width_Z dstrect) (get_width_Z srcrect))
              (top_y dstrect + c_div ((top_y inside - top_y srcrect) * get_height_Z dstrect) (get_height_Z srcrect))
              (left dstrect + c_div ((right inside - left srcrect) * get_width_Z dstrect) (get_width_Z srcrect))
              (top_y dstrect + c_div ((bottom inside - top_y srcrect) * get_height_Z dstrect) (get_height_Z srcrect))
        in if \<not> contains_rect dstrect result then Inl AssertionFailed else Inr result)"

definition new_srcrect_Z :: "Rect \<Rightarrow> Rect \<Rightarrow> Rect" where
  "new_srcrect_Z imgrect rect =
     rect_from_size_Z (positive_mod (left rect) (get_width_Z imgrect))
                    (positive_mod (top_y rect) (get_height_Z imgrect))
                    (get_size_Z rect)"

datatype part = Copied Rect Rect | Skipped Rect Rect




fun render_texture_Z :: "nat \<Rightarrow> Rect \<Rightarrow> Rect \<Rightarrow> Rect \<Rightarrow> (error + part list) option" where
  "render_texture_Z 0 imgrect srcrect dstrect = None"
| "render_texture_Z (Suc fuel) imgrect srcrect dstrect =
     (if \<not> contains_point imgrect (left srcrect) (top_y srcrect) then Some (Inl AssertionFailed)
      else if empty_rect_Z srcrect then Some (Inr [])
      else if empty_rect_Z dstrect then Some (Inr [Skipped srcrect dstrect])
      else if contains_rect imgrect srcrect then Some (Inr [Copied srcrect dstrect])
      else
        (case intersect srcrect imgrect of
           (inside, rest0, rest1, rest2, rest3) \<Rightarrow>
             foldl
               (\<lambda>acc rect.
                  and_then acc
                    (case relative_map_Z rect srcrect dstrect of
                       Inl e \<Rightarrow> Some (Inl e)
                     | Inr d \<Rightarrow> render_texture_Z fuel imgrect (new_srcrect_Z imgrect rect) d))
               (case relative_map_Z inside srcrect dstrect of
                  Inl e \<Rightarrow> Some (Inl e)
                | Inr d \<Rightarrow> render_texture_Z fuel imgrect inside d)
               [rest0, rest1, rest2, rest3]))"


text \<open>
  How many texture widths (heights) lie between the left (top) edge of the texture and
  the last column (row) of \<open>srcrect\<close>: the number of times \<open>srcrect\<close> steps over a
  texture edge on that axis.
\<close>

definition spans_x :: "Rect \<Rightarrow> Rect \<Rightarrow> nat" where
  "spans_x imgrect srcrect = nat ((right srcrect - 1 - left imgrect) div get_width_Z imgrect)"

definition spans_y :: "Rect \<Rightarrow> Rect \<Rightarrow> nat" where
  "spans_y imgrect srcrect = nat ((bottom srcrect - 1 - top_y imgrect) div get_height_Z imgrect)"






subsection \<open>The gradient stepper\<close>














subsection \<open>Filled rectangles\<close>






subsection \<open>Triangles\<close>

record TriangleRequest =
  tri_pos1 :: Vector
  tri_pos2 :: Vector
  tri_pos3 :: Vector
  tri_color :: Color

definition make_edge :: "int \<Rightarrow> int \<Rightarrow> int \<Rightarrow> int \<Rightarrow> Rectf" where
  "make_edge x1 y1 x2 y2 =
     (if y1 < y2
      then \<lparr>p1 = \<lparr>vec_x = of_int x1, vec_y = of_int y1\<rparr>, p2 = \<lparr>vec_x = of_int x2, vec_y = of_int y2\<rparr>\<rparr>
      else \<lparr>p1 = \<lparr>vec_x = of_int x2, vec_y = of_int y2\<rparr>, p2 = \<lparr>vec_x = of_int x1, vec_y = of_int y1\<rparr>\<rparr>)"

text \<open>
  The loop of \<^verbatim>\<open>draw_span_between_edges\<close>: one line for every \<open>y\<close> from the top of the
  short edge to just above its bottom.
\<close>

function span_loop :: "Rectf \<Rightarrow> Rectf \<Rightarrow> rat \<Rightarrow> rat \<Rightarrow> int \<Rightarrow> rat \<Rightarrow> rat \<Rightarrow> effect list" where
  "span_loop e1 e2 factorStep1 factorStep2 y factor1 factor2 =
     (if y < c_trunc (vec_y (p2 e2)) then
        SDL_RenderDrawLine
          (c_trunc (vec_x (p1 e1) + (vec_x (p2 e1) - vec_x (p1 e1)) * factor1)) y
          (c_trunc (vec_x (p1 e2) + (vec_x (p2 e2) - vec_x (p1 e2)) * factor2)) y
        # span_loop e1 e2 factorStep1 factorStep2 (y + 1)
            (factor1 + factorStep1) (factor2 + factorStep2)
      else [])"
  by pat_completeness auto
termination
  by (relation "measure (\<lambda>(e1, e2, s1, s2, y, f1, f2). nat (c_trunc (vec_y (p2 e2)) - y))") auto

definition draw_span_between_edges :: "Rectf \<Rightarrow> Rectf \<Rightarrow> effect list" where
  "draw_span_between_edges e1 e2 =
     (let e1ydiff = vec_y (p2 e1) - vec_y (p1 e1) in
      if e1ydiff = 0 then []
      else
        let e2ydiff = vec_y (p2 e2) - vec_y (p1 e2) in
        if e2ydiff = 0 then []
        else
          let factor1 = (vec_y (p1 e2) - vec_y (p1 e1)) / e1ydiff;
              factorStep1 = 1 / e1ydiff;
              factor2 = 0;
              factorStep2 = 1 / e2ydiff
          in span_loop e1 e2 factorStep1 factorStep2 (c_trunc (vec_y (p1 e2))) factor1 factor2)"

definition triangle_edges :: "TriangleRequest \<Rightarrow> Rectf list" where
  "triangle_edges request =
     (let x1 = c_trunc (vec_x (tri_pos1 request)); y1 = c_trunc (vec_y (tri_pos1 request));
          x2 = c_trunc (vec_x (tri_pos2 request)); y2 = c_trunc (vec_y (tri_pos2 request));
          x3 = c_trunc (vec_x (tri_pos3 request)); y3 = c_trunc (vec_y (tri_pos3 request))
      in [make_edge x1 y1 x2 y2, make_edge x2 y2 x3 y3, make_edge x3 y3 x1 y1])"

text \<open>
  The loop of \<^verbatim>\<open>draw_triangle\<close> that looks for the edge with the greatest extent in
  \<open>y\<close>, with its two variables \<open>maxLength\<close> and \<open>longEdge\<close>.
\<close>

definition long_edge :: "Rectf list \<Rightarrow> nat" where
  "long_edge edges =
     snd (foldl
       (\<lambda>(maxLength, longEdge) i.
          let len = c_trunc (vec_y (p2 (edges ! i)) - vec_y (p1 (edges ! i)))
          in if len > maxLength then (len, i) else (maxLength, longEdge))
       (0, 0) [0..<3])"

definition draw_triangle :: "TriangleRequest \<Rightarrow> effect list" where
  "draw_triangle request =
     (let r = to_Uint8 (red (tri_color request) * 255);
          g = to_Uint8 (green (tri_color request) * 255);
          b = to_Uint8 (blue (tri_color request) * 255);
          a = to_Uint8 (alpha (tri_color request) * 255);
          edges = triangle_edges request;
          longEdge = long_edge edges;
          shortEdge1 = (longEdge + 1) mod 3;
          shortEdge2 = (longEdge + 2) mod 3
      in [SDL_SetRenderDrawBlendMode SDL_BLENDMODE_BLEND, SDL_SetRenderDrawColor r g b a] @
         draw_span_between_edges (edges ! longEdge) (edges ! shortEdge1) @
         draw_span_between_edges (edges ! longEdge) (edges ! shortEdge2))"

definition horizontal :: "Rectf \<Rightarrow> bool" where
  "horizontal e = (vec_y (p2 e) - vec_y (p1 e) = 0)"

subsection \<open>Clearing and the clip rectangle\<close>

text \<open>
  The painter's state is the clip rectangle it has stored. Modelled from the spec:
  \<^verbatim>\<open>Color::r8\<close>, \<^verbatim>\<open>g8\<close>, \<^verbatim>\<open>b8\<close>, \<^verbatim>\<open>a8\<close> and \<^verbatim>\<open>Color::from_rgb888\<close> (video/color.hpp)
  are not among the sources; they convert between the engine's normalised colour and
  8-bit channels. The value \<^verbatim>\<open>SDL_RenderSetClipRect\<close> returns and the text of
  \<^verbatim>\<open>SDL_GetError\<close> are arguments of the model.
\<close>

record SDLPainter =
  m_cliprect :: "SDL_Rect option"

definition r8 :: "Color \<Rightarrow> Uint8 option" where "r8 c = to_Uint8 (255 * red c)"

definition g8 :: "Color \<Rightarrow> Uint8 option" where "g8 c = to_Uint8 (255 * green c)"

definition b8 :: "Color \<Rightarrow> Uint8 option" where "b8 c = to_Uint8 (255 * blue c)"

definition a8 :: "Color \<Rightarrow> Uint8 option" where "a8 c = to_Uint8 (255 * alpha c)"

definition clear :: "SDLPainter \<Rightarrow> Color \<Rightarrow> effect list" where
  "clear painter color =
     SDL_SetRenderDrawColor (r8 color) (g8 color) (b8 color) (a8 color) #
     (case m_cliprect painter of
        Some cliprect \<Rightarrow> [SDL_SetRenderDrawBlendMode SDL_BLENDMODE_NONE, SDL_RenderFillRect cliprect]
      | None \<Rightarrow> [SDL_RenderClear])"

definition set_clip_rect :: "SDLPainter \<Rightarrow> Rect \<Rightarrow> int \<Rightarrow> string \<Rightarrow> SDLPainter \<times> effect list" where
  "set_clip_rect painter rect ret sdl_error =
     (let cliprect = \<lparr>sdl_x = left rect, sdl_y = top_y rect,
                       sdl_w = get_width rect, sdl_h = get_height rect\<rparr>
      in (painter\<lparr>m_cliprect := Some cliprect\<rparr>,
          SDL_RenderSetClipRect (Some cliprect) #
          (if ret < 0 then [Warn_set_clip_rect_failed sdl_error] else [])))"

definition clear_clip_rect :: "SDLPainter \<Rightarrow> int \<Rightarrow> string \<Rightarrow> SDLPainter \<times> effect list" where
  "clear_clip_rect painter ret sdl_error =
     (painter\<lparr>m_cliprect := None\<rparr>,
      SDL_RenderSetClipRect None #
      (if ret < 0 then [Warn_clear_clip_rect_failed sdl_error] else []))"

subsection \<open>Reading a pixel back\<close>

text \<open>
  \<^verbatim>\<open>get_pixel\<close>. The request's \<^verbatim>\<open>color_ptr\<close> is modelled by the colour it points to,
  and the function returns the request with that colour as it is afterwards. What the
  backend does is given by three arguments: \<open>ret\<close>, the value
  \<^verbatim>\<open>SDL_RenderReadPixels\<close> returns; \<open>sdl_error\<close>, the text of \<^verbatim>\<open>SDL_GetError\<close>; and
  \<open>pixel\<close>, the four bytes of the local array \<^verbatim>\<open>pixel\<close> when the call has returned (what
  the backend wrote, or, when it wrote nothing, what the uninitialised array holds).
  The rectangle read is computed with a float division by the logical size; when that
  has a zero dimension the float is not finite and the rectangle is undefined (\<open>None\<close>).
\<close>

record Renderer =
  renderer_rect :: Rect
  logical_size :: Size

record GetPixelRequest =
  pixel_pos :: Vector
  color_ptr :: Color

type_synonym pixel_buffer = "Uint8 \<times> Uint8 \<times> Uint8 \<times> Uint8"

definition from_rgb888 :: "Uint8 \<Rightarrow> Uint8 \<Rightarrow> Uint8 \<Rightarrow> Color" where
  "from_rgb888 r g b =
     \<lparr>red = of_nat (unat r) / 255, green = of_nat (unat g) / 255, blue = of_nat (unat b) / 255,
      alpha = 1\<rparr>"

definition pixel_srcrect :: "Renderer \<Rightarrow> GetPixelRequest \<Rightarrow> SDL_Rect option" where
  "pixel_srcrect m_renderer request =
     (let rect = renderer_rect m_renderer; size = logical_size m_renderer in
      if width size = 0 \<or> height size = 0 then None
      else Some
        \<lparr>sdl_x = left rect +
             c_trunc (vec_x (pixel_pos request) * of_int (get_width rect) / of_int (width size)),
         sdl_y = top_y rect +
             c_trunc (vec_y (pixel_pos request) * of_int (get_height rect) / of_int (height size)),
         sdl_w = 1, sdl_h = 1\<rparr>)"

definition get_pixel ::
  "Renderer \<Rightarrow> int \<Rightarrow> string \<Rightarrow> pixel_buffer \<Rightarrow> GetPixelRequest \<Rightarrow> GetPixelRequest \<times> effect list" where
  "get_pixel m_renderer ret sdl_error pixel request =
     (case pixel of (pixel0, pixel1, pixel2, pixel3) \<Rightarrow>
        (request\<lparr>color_ptr := from_rgb888 pixel2 pixel1 pixel0\<rparr>,
         SDL_RenderReadPixels (pixel_srcrect m_renderer request) #
         (if ret \<noteq> 0 then [Warn_failed_to_read_pixels sdl_error] else [])))"

section \<open>Properties\<close>

subsection \<open>Truncating division and the map into the destination\<close>







text \<open>
  C4. The assertion \<^verbatim>\<open>assert(dstrect.contains(result))\<close> can fire. The part
  \<open>(50000, 0, 100000, 1)\<close> lies in the source rectangle \<open>(0, 0, 100000, 1)\<close>, and neither
  that nor the destination \<open>(0, 0, 50000, 1)\<close> is empty; but the product
  \<open>50000 * 50000\<close> does not fit in an \<^verbatim>\<open>int\<close>. It wraps around to \<open>-1794967296\<close>, the
  left edge of the result is \<open>-17949\<close>, left of the destination, and the build that
  checks assertions stops there. The build that does not check them returns a rectangle
  that is not within the destination.
\<close>

theorem relative_map_overflow_leaves_dstrect:
  "contains_rect (mk_rect 0 0 100000 1) (mk_rect 50000 0 100000 1) \<and>
   \<not> empty_rect (mk_rect 0 0 100000 1) \<and> \<not> empty_rect (mk_rect 0 0 50000 1) \<and>
   relative_map False (mk_rect 50000 0 100000 1) (mk_rect 0 0 100000 1) (mk_rect 0 0 50000 1)
     = Inl AssertionFailed \<and>
   relative_map True (mk_rect 50000 0 100000 1) (mk_rect 0 0 100000 1) (mk_rect 0 0 50000 1)
     = Inr (mk_rect (- 17949) 0 7050 1) \<and>
   \<not> contains_rect (mk_rect 0 0 50000 1) (mk_rect (- 17949) 0 7050 1)"
  by code_simp


subsection \<open>The recursion of the wraparound renderer returns\<close>

lemma and_then_not_None: "a \<noteq> None \<Longrightarrow> b \<noteq> None \<Longrightarrow> and_then a b \<noteq> None"
  by (auto simp: and_then_def split: option.splits sum.splits)


lemma and_then_Inl:
  "and_then a b = Some (Inl e) \<Longrightarrow> a = Some (Inl e) \<or> b = Some (Inl e)"
  by (auto simp: and_then_def split: option.splits sum.splits)

lemma and_then_mono:
  assumes "a = None \<or> a = a'" "b = None \<or> b = b'"
  shows "and_then a b = None \<or> and_then a b = and_then a' b'"
  using assms by (auto simp: and_then_def split: option.splits sum.splits)

lemma render_texture_at_once:
  "\<not> contains_point img (left s) (top_y s) \<or> empty_rect_Z s \<or> empty_rect_Z d \<or> contains_rect img s
   \<Longrightarrow> render_texture_Z (Suc n) img s d \<noteq> None"
  by auto



lemma div_minus_self: fixes W :: int shows "W \<noteq> 0 \<Longrightarrow> (a - W) div W = a div W - 1"
  using div_add_self2 [of W "a - W"] by simp

lemma div_shift: fixes W :: int assumes "0 < W" "x = a - W" shows "x div W = a div W - 1"
  using assms div_minus_self [of W a] by simp

lemma new_srcrect_eq:
  "new_srcrect_Z img rect =
     mk_rect (left rect mod get_width_Z img) (top_y rect mod get_height_Z img)
       (left rect mod get_width_Z img + (right rect - left rect))
       (top_y rect mod get_height_Z img + (bottom rect - top_y rect))"
  by (simp add: new_srcrect_Z_def rect_from_size_Z_def get_size_Z_def positive_mod_def
      get_width_Z_def get_height_Z_def)

text \<open>
  The remainder right of the texture, moved back by one texture width, steps over one
  texture edge less than the rectangle it came from; so does the remainder below.
\<close>

lemma spans_x_right_rest:
  assumes "0 < get_width_Z img" "right img < r"
  shows "spans_x img (mk_rect (left img) t (left img + (r - right img)) b)
         < spans_x img (mk_rect l t' r b')"
proof -
  let ?W = "right img - left img"
  have W: "0 < ?W" using assms by (simp add: get_width_Z_def)
  have "0 < (r - 1 - left img) div ?W"
    using W assms(2) pos_imp_zdiv_pos_iff [of ?W "r - 1 - left img"] by simp
  moreover have "(left img + (r - right img) - 1 - left img) div ?W = (r - 1 - left img) div ?W - 1"
    by (rule div_shift [OF W]) simp
  ultimately have "nat ((left img + (r - right img) - 1 - left img) div ?W)
      < nat ((r - 1 - left img) div ?W)"
    by simp
  then show ?thesis
    by (simp only: spans_x_def mk_rect_def get_width_Z_def Rect.simps)
qed

lemma spans_y_bottom_rest:
  assumes "0 < get_height_Z img" "bottom img < b"
  shows "spans_y img (mk_rect l (top_y img) r (top_y img + (b - bottom img)))
         < spans_y img (mk_rect l' t r' b)"
proof -
  let ?H = "bottom img - top_y img"
  have H: "0 < ?H" using assms by (simp add: get_height_Z_def)
  have "0 < (b - 1 - top_y img) div ?H"
    using H assms(2) pos_imp_zdiv_pos_iff [of ?H "b - 1 - top_y img"] by simp
  moreover have "(top_y img + (b - bottom img) - 1 - top_y img) div ?H = (b - 1 - top_y img) div ?H - 1"
    by (rule div_shift [OF H]) simp
  ultimately have "nat ((top_y img + (b - bottom img) - 1 - top_y img) div ?H)
      < nat ((b - 1 - top_y img) div ?H)"
    by simp
  then show ?thesis
    by (simp only: spans_y_def mk_rect_def get_height_Z_def Rect.simps)
qed

lemma spans_x_inside:
  assumes "left img < r" "r \<le> right img"
  shows "spans_x img (mk_rect l t r b) = 0"
  using assms by (simp add: spans_x_def mk_rect_def get_width_Z_def)

lemma spans_y_inside:
  assumes "top_y img < b" "b \<le> bottom img"
  shows "spans_y img (mk_rect l t r b) = 0"
  using assms by (simp add: spans_y_def mk_rect_def get_height_Z_def)

lemma spans_x_cong: "right a = right b \<Longrightarrow> spans_x img a = spans_x img b"
  by (simp add: spans_x_def)

lemma spans_y_cong: "bottom a = bottom b \<Longrightarrow> spans_y img a = spans_y img b"
  by (simp add: spans_y_def)

lemmas rect_eval = mk_rect_def rect_from_size_Z_def get_width_Z_def get_height_Z_def get_size_Z_def
  empty_rect_Z_def contains_point_def contains_rect_def positive_mod_def c_div_def
  intersect_def relative_map_Z_def new_srcrect_Z_def and_then_def Let_def

subsection \<open>The wraparound renderer in 32-bit arithmetic\<close>

lemma wrap_int_id: "int32 v \<Longrightarrow> wrap_int v = v"
  by (simp add: wrap_int_def int32_def)

lemma get_width_int_rect: "int_rect r \<Longrightarrow> get_width r = get_width_Z r"
  by (simp add: get_width_def get_width_Z_def int_rect_def wrap_int_id)

lemma get_height_int_rect: "int_rect r \<Longrightarrow> get_height r = get_height_Z r"
  by (simp add: get_height_def get_height_Z_def int_rect_def wrap_int_id)

lemma empty_rect_int_rect: "int_rect r \<Longrightarrow> empty_rect r = empty_rect_Z r"
  by (simp add: empty_rect_def empty_rect_Z_def get_width_int_rect get_height_int_rect)

lemma int_rect_mk:
  "int32 l \<Longrightarrow> int32 t \<Longrightarrow> int32 r \<Longrightarrow> int32 b \<Longrightarrow> int32 (r - l) \<Longrightarrow> int32 (b - t) \<Longrightarrow>
   int_rect (mk_rect l t r b)"
  by (simp add: int_rect_def mk_rect_def)

lemma new_srcrect_int:
  assumes "int_rect img" "int_rect rect" "0 < get_width_Z img" "0 < get_height_Z img"
    "int32 (left rect mod get_width_Z img + (right rect - left rect))"
    "int32 (top_y rect mod get_height_Z img + (bottom rect - top_y rect))"
  shows "new_srcrect img rect = new_srcrect_Z img rect"
  using assms
  by (simp add: new_srcrect_def new_srcrect_Z_def rect_from_size_def rect_from_size_Z_def
      get_size_def get_size_Z_def get_width_int_rect get_height_int_rect wrap_int_id
      get_width_Z_def get_height_Z_def positive_mod_def)

lemma render_texture_returns_at_once:
  "empty_rect s \<or> empty_rect d \<or> contains_rect img s \<Longrightarrow> render_texture nd (Suc n) img s d \<noteq> None"
  by auto

lemma render_texture_split_at_origin:
  assumes img: "img = mk_rect 0 0 W H" "W \<le> 2147483647" "H \<le> 2147483647"
    and inv: "int_rect src" "contains_point img (left src) (top_y src)"
    and ne: "\<not> empty_rect src" "\<not> empty_rect dst" and nc: "\<not> contains_rect img src"
  shows "render_texture nd (Suc n) img src dst =
       and_then (and_then (and_then (and_then
         (render_part nd n img src dst
            (mk_rect (left src) (top_y src) (min (right src) W) (min (bottom src) H))
            (mk_rect (left src) (top_y src) (min (right src) W) (min (bottom src) H)))
         (render_part nd n img src dst
            (mk_rect (left src) (top_y src) (right src) 0)
            (mk_rect (left src) (top_y src) (right src) 0)))
         (render_part nd n img src dst
            (mk_rect (left src) (top_y src) 0 (min (bottom src) H))
            (mk_rect (left src) (top_y src) 0 (min (bottom src) H))))
         (render_part nd n img src dst
            (mk_rect W (top_y src) (right src) (min (bottom src) H))
            (mk_rect 0 (top_y src) (right src - W) (min (bottom src) H))))
         (render_part nd n img src dst
            (mk_rect (left src) H (right src) (bottom src))
            (mk_rect (left src) 0 (right src) (bottom src - H)))"
proof -
  have lt: "0 \<le> left src" "left src < W" "0 \<le> top_y src" "top_y src < H"
    using inv(2) by (simp_all add: contains_point_def img mk_rect_def)
  have i32: "int32 W" "int32 H" "int32 0" using lt img by (simp_all add: int32_def)
  have ir: "int_rect img" using lt img by (simp add: int_rect_def mk_rect_def int32_def)
  have wh: "get_width img = W" "get_height img = H" "get_width_Z img = W" "get_height_Z img = H"
    using ir by (simp_all add: get_width_int_rect get_height_int_rect)
      (simp_all add: get_width_Z_def get_height_Z_def img mk_rect_def)
  have sz: "left src < right src" "top_y src < bottom src"
    using ne(1) inv(1) by (simp_all add: empty_rect_int_rect empty_rect_Z_def get_width_Z_def get_height_Z_def)
  have s32: "int32 (left src)" "int32 (top_y src)" "int32 (right src)" "int32 (bottom src)"
    using inv(1) by (simp_all add: int_rect_def)
  let ?inside = "mk_rect (left src) (top_y src) (min (right src) W) (min (bottom src) H)"
  let ?rest0 = "mk_rect (left src) (top_y src) (right src) 0"
  let ?rest1 = "mk_rect (left src) (top_y src) 0 (min (bottom src) H)"
  let ?rest2 = "mk_rect W (top_y src) (right src) (min (bottom src) H)"
  let ?rest3 = "mk_rect (left src) H (right src) (bottom src)"
  have isect: "intersect src img = (?inside, ?rest0, ?rest1, ?rest2, ?rest3)"
    using lt by (simp add: intersect_def max_def img mk_rect_def)
  have r: "int_rect ?rest0" "int_rect ?rest1" "int_rect ?rest2" "int_rect ?rest3"
    using lt sz s32 i32 by (auto simp: int_rect_def mk_rect_def int32_def min_def)
  have n0: "new_srcrect img ?rest0 = ?rest0"
    using lt sz s32 i32 wh
    by (subst new_srcrect_int [OF ir r(1)]) (simp_all add: new_srcrect_eq wh mk_rect_def int32_def)
  have n1: "new_srcrect img ?rest1 = ?rest1"
    using lt sz s32 i32 wh
    by (subst new_srcrect_int [OF ir r(2)]) (auto simp: new_srcrect_eq wh mk_rect_def int32_def min_def)
  have n2: "new_srcrect img ?rest2 = mk_rect 0 (top_y src) (right src - W) (min (bottom src) H)"
    using lt sz s32 i32 wh
    by (subst new_srcrect_int [OF ir r(3)]) (auto simp: new_srcrect_eq wh mk_rect_def int32_def min_def)
  have n3: "new_srcrect img ?rest3 = mk_rect (left src) 0 (right src) (bottom src - H)"
    using lt sz s32 i32 wh
    by (subst new_srcrect_int [OF ir r(4)]) (auto simp: new_srcrect_eq wh mk_rect_def int32_def min_def)
  have z: "\<not> (get_width img = 0 \<or> get_height img = 0)" using lt wh by simp
  have "render_texture nd (Suc n) img src dst =
       and_then (and_then (and_then (and_then
         (render_part nd n img src dst ?inside ?inside)
         (render_part nd n img src dst ?rest0 (new_srcrect img ?rest0)))
         (render_part nd n img src dst ?rest1 (new_srcrect img ?rest1)))
         (render_part nd n img src dst ?rest2 (new_srcrect img ?rest2)))
         (render_part nd n img src dst ?rest3 (new_srcrect img ?rest3))"
    using ne nc inv(2) z by (simp add: isect render_part_def)
  then show ?thesis unfolding n0 n1 n2 n3 .
qed

lemma render_texture_unfold:
  assumes "ndebug \<or> contains_point img (left src) (top_y src)" "\<not> empty_rect src"
    "\<not> empty_rect dst" "\<not> contains_rect img src"
  shows "render_texture ndebug (Suc n) img src dst =
     (case intersect src img of (inside, rest0, rest1, rest2, rest3) \<Rightarrow>
       and_then (and_then (and_then (and_then
         (render_part ndebug n img src dst inside inside)
         (render_rest ndebug n img src dst rest0))
         (render_rest ndebug n img src dst rest1))
         (render_rest ndebug n img src dst rest2))
         (render_rest ndebug n img src dst rest3))"
  using assms by (auto simp add: render_part_def render_rest_def split: prod.splits)

lemma render_part_returns:
  "(\<And>d. render_texture nd n img s d \<noteq> None) \<Longrightarrow> render_part nd n img src dst rect s \<noteq> None"
  by (simp add: render_part_def split: sum.splits)

lemma render_part_more_fuel:
  assumes "\<And>d. render_texture nd n img s d = None \<or>
                render_texture nd n img s d = render_texture nd (Suc n) img s d"
  shows "render_part nd n img src dst rect s = None \<or>
         render_part nd n img src dst rect s = render_part nd (Suc n) img src dst rect s"
  using assms unfolding render_part_def by (cases "relative_map nd rect src dst") simp_all

lemma render_rest_more_fuel:
  assumes "\<And>s d. render_texture nd n img s d = None \<or>
                render_texture nd n img s d = render_texture nd (Suc n) img s d"
  shows "render_rest nd n img src dst rect = None \<or>
         render_rest nd n img src dst rect = render_rest nd (Suc n) img src dst rect"
  unfolding render_rest_def using render_part_more_fuel [of nd n img, OF assms] by simp

lemma render_texture_returns:
  assumes img: "img = mk_rect 0 0 W H" "W \<le> 2147483647" "H \<le> 2147483647"
  shows "int_rect src \<Longrightarrow> contains_point img (left src) (top_y src) \<Longrightarrow>
         spans_x img src + spans_y img src < fuel \<Longrightarrow> render_texture nd fuel img src dst \<noteq> None"
proof (induction fuel arbitrary: src dst)
  case 0
  then show ?case by simp
next
  case (Suc n)
  note ir = Suc.prems(1) and cp = Suc.prems(2)
  show ?case
  proof (cases "empty_rect src \<or> empty_rect dst \<or> contains_rect img src")
    case True
    then show ?thesis by (rule render_texture_returns_at_once)
  next
    case False
    then have ne: "\<not> empty_rect src" and nd: "\<not> empty_rect dst" and nc: "\<not> contains_rect img src"
      by simp_all
    have i4: "left img = 0" "top_y img = 0" "right img = W" "bottom img = H"
      "get_width_Z img = W" "get_height_Z img = H"
      by (simp_all add: img mk_rect_def get_width_Z_def get_height_Z_def)
    have lt: "0 \<le> left src" "left src < W" "0 \<le> top_y src" "top_y src < H"
      using cp by (simp_all add: contains_point_def i4)
    have W: "0 < get_width_Z img" and H: "0 < get_height_Z img" using lt by (simp_all add: i4)
    have sz: "left src < right src" "top_y src < bottom src"
      using ne ir by (simp_all add: empty_rect_int_rect empty_rect_Z_def get_width_Z_def get_height_Z_def)
    have s32: "int32 (left src)" "int32 (top_y src)" "int32 (right src)" "int32 (bottom src)"
      using ir by (simp_all add: int_rect_def)
    have over: "W < right src \<or> H < bottom src"
      using nc lt by (auto simp: contains_rect_def i4)
    have src_eq: "src = mk_rect (left src) (top_y src) (right src) (bottom src)"
      by (simp add: mk_rect_def)
    have "0 < spans_x img src + spans_y img src"
      using over spans_x_right_rest [OF W, of "right src" "top_y src" "bottom src" "left src" "top_y src" "bottom src"]
        spans_y_bottom_rest [OF H, of "bottom src" "left src" "right src" "left src" "top_y src" "right src"]
        src_eq by (auto simp: i4)
    then obtain m where n: "n = Suc m" using Suc.prems(3) by (cases n) simp_all
    let ?inside = "mk_rect (left src) (top_y src) (min (right src) W) (min (bottom src) H)"
    let ?rest0 = "mk_rect (left src) (top_y src) (right src) 0"
    let ?rest1 = "mk_rect (left src) (top_y src) 0 (min (bottom src) H)"
    let ?rest2 = "mk_rect W (top_y src) (right src) (min (bottom src) H)"
    let ?rest3 = "mk_rect (left src) H (right src) (bottom src)"
    let ?new2 = "mk_rect 0 (top_y src) (right src - W) (min (bottom src) H)"
    let ?new3 = "mk_rect (left src) 0 (right src) (bottom src - H)"
    have p_inside: "render_part nd n img src dst ?inside ?inside \<noteq> None"
    proof (rule render_part_returns)
      fix d
      have "contains_rect img ?inside"
        using lt by (simp add: contains_rect_def mk_rect_def i4)
      then show "render_texture nd n img ?inside d \<noteq> None"
        unfolding n by (intro render_texture_returns_at_once) simp
    qed
    have p0: "render_part nd n img src dst ?rest0 ?rest0 \<noteq> None"
    proof (rule render_part_returns)
      fix d
      have "int_rect ?rest0" using lt sz s32 by (auto simp: int_rect_def mk_rect_def int32_def)
      then have "empty_rect ?rest0"
        using lt by (simp add: empty_rect_int_rect empty_rect_Z_def get_height_Z_def mk_rect_def)
      then show "render_texture nd n img ?rest0 d \<noteq> None"
        unfolding n by (intro render_texture_returns_at_once) simp
    qed
    have p1: "render_part nd n img src dst ?rest1 ?rest1 \<noteq> None"
    proof (rule render_part_returns)
      fix d
      have "int_rect ?rest1" using lt sz s32 img by (auto simp: int_rect_def mk_rect_def int32_def min_def)
      then have "empty_rect ?rest1"
        using lt by (simp add: empty_rect_int_rect empty_rect_Z_def get_width_Z_def mk_rect_def)
      then show "render_texture nd n img ?rest1 d \<noteq> None"
        unfolding n by (intro render_texture_returns_at_once) simp
    qed
    have p2: "render_part nd n img src dst ?rest2 ?new2 \<noteq> None"
    proof (rule render_part_returns)
      fix d
      have ir2: "int_rect ?new2" using lt sz s32 img by (auto simp: int_rect_def mk_rect_def int32_def min_def)
      show "render_texture nd n img ?new2 d \<noteq> None"
      proof (cases "W < right src")
        case False
        then have "empty_rect ?new2"
          using ir2 by (simp add: empty_rect_int_rect empty_rect_Z_def get_width_Z_def mk_rect_def)
        then show ?thesis unfolding n by (intro render_texture_returns_at_once) simp
      next
        case True
        have "spans_x img ?new2 < spans_x img src"
          using spans_x_right_rest [OF W, of "right src" "top_y src" "min (bottom src) H"
              "left src" "top_y src" "bottom src"] True src_eq
          by (simp add: i4)
        moreover have "spans_y img ?new2 = 0"
          using lt sz by (intro spans_y_inside) (simp_all add: i4)
        ultimately have "spans_x img ?new2 + spans_y img ?new2 < n"
          using Suc.prems(3) by simp
        moreover have "contains_point img (left ?new2) (top_y ?new2)"
          using lt by (simp add: contains_point_def mk_rect_def i4)
        ultimately show ?thesis using ir2 by (intro Suc.IH)
      qed
    qed
    have p3: "render_part nd n img src dst ?rest3 ?new3 \<noteq> None"
    proof (rule render_part_returns)
      fix d
      have ir3: "int_rect ?new3" using lt sz s32 img by (auto simp: int_rect_def mk_rect_def int32_def min_def)
      show "render_texture nd n img ?new3 d \<noteq> None"
      proof (cases "H < bottom src")
        case False
        then have "empty_rect ?new3"
          using ir3 by (simp add: empty_rect_int_rect empty_rect_Z_def get_height_Z_def mk_rect_def)
        then show ?thesis unfolding n by (intro render_texture_returns_at_once) simp
      next
        case True
        have "spans_y img ?new3 < spans_y img src"
          using spans_y_bottom_rest [OF H, of "bottom src" "left src" "right src"
              "left src" "top_y src" "right src"] True src_eq
          by (simp add: i4)
        moreover have "spans_x img ?new3 = spans_x img src"
          by (rule spans_x_cong) (simp add: mk_rect_def)
        ultimately have "spans_x img ?new3 + spans_y img ?new3 < n"
          using Suc.prems(3) by simp
        moreover have "contains_point img (left ?new3) (top_y ?new3)"
          using lt by (simp add: contains_point_def mk_rect_def i4)
        ultimately show ?thesis using ir3 by (intro Suc.IH)
      qed
    qed
    show ?thesis
      unfolding render_texture_split_at_origin [OF img ir cp ne nd nc]
      using p_inside p0 p1 p2 p3 by (simp add: and_then_not_None)
  qed
qed

lemma render_texture_next_fuel:
  "render_texture nd n img src dst = None \<or>
   render_texture nd n img src dst = render_texture nd (Suc n) img src dst"
proof (induction n arbitrary: src dst)
  case 0
  then show ?case by simp
next
  case (Suc n)
  show ?case
  proof (cases "\<not> (nd \<or> contains_point img (left src) (top_y src)) \<or> empty_rect src \<or> empty_rect dst
      \<or> contains_rect img src")
    case True
    then show ?thesis by auto
  next
    case False
    then have cp: "nd \<or> contains_point img (left src) (top_y src)" and ne: "\<not> empty_rect src"
      and nde: "\<not> empty_rect dst" and nc: "\<not> contains_rect img src"
      by simp_all
    obtain inside r0 r1 r2 r3 where isect: "intersect src img = (inside, r0, r1, r2, r3)"
      by (cases "intersect src img") auto
    note p = render_part_more_fuel [of nd n img _ src dst, OF Suc.IH]
    note q = render_rest_more_fuel [of nd n img src dst, OF Suc.IH]
    show ?thesis
      unfolding render_texture_unfold [OF cp ne nde nc, of n]
        render_texture_unfold [OF cp ne nde nc, of "Suc n"] isect prod.case
      by (intro and_then_mono p q)
  qed
qed

lemma render_texture_any_fuel:
  "render_texture nd n img src dst = Some r \<Longrightarrow> render_texture nd (n + k) img src dst = Some r"
proof (induction k)
  case 0
  then show ?case by simp
next
  case (Suc k)
  then show ?case using render_texture_next_fuel [of nd "n + k" img src dst] by simp
qed

text \<open>
  C2. For the texture rectangle \<open>(0, 0, W, H)\<close> that \<^verbatim>\<open>RenderCopyEx\<close> builds and every
  source rectangle of 32-bit integers whose top-left corner lies in it,
  \<^verbatim>\<open>render_texture\<close> returns, whatever the destination is and whether assertions are
  checked or not: there is one outcome \<open>r\<close> that every run allowed a recursion depth
  above \<open>spans_x + spans_y\<close> ends with. The depth of the recursion is at most one more
  than the number of texture widths and heights the source rectangle spans, because
  each remainder that is rendered again spans one less (lemmas \<open>spans_x_right_rest\<close>
  and \<open>spans_y_bottom_rest\<close>).
\<close>

theorem render_texture_terminates:
  assumes "imgrect = mk_rect 0 0 W H" and "W \<le> 2147483647" and "H \<le> 2147483647"
    and "int_rect srcrect"
    and "contains_point imgrect (left srcrect) (top_y srcrect)"
  shows "\<exists>r. \<forall>fuel. spans_x imgrect srcrect + spans_y imgrect srcrect < fuel \<longrightarrow>
                 render_texture ndebug fuel imgrect srcrect dstrect = Some r"
proof -
  let ?depth = "Suc (spans_x imgrect srcrect + spans_y imgrect srcrect)"
  have "render_texture ndebug ?depth imgrect srcrect dstrect \<noteq> None"
    by (rule render_texture_returns [OF assms]) simp
  then obtain r where r: "render_texture ndebug ?depth imgrect srcrect dstrect = Some r" by blast
  have "render_texture ndebug fuel imgrect srcrect dstrect = Some r"
    if "spans_x imgrect srcrect + spans_y imgrect srcrect < fuel" for fuel
  proof -
    from that obtain k where "fuel = ?depth + k"
      using less_iff_Suc_add [of "spans_x imgrect srcrect + spans_y imgrect srcrect" fuel] by auto
    then show ?thesis using render_texture_any_fuel [OF r, of k] by simp
  qed
  then show ?thesis by blast
qed

text \<open>
  A source rectangle that spans two texture widths and one texture height: depth 3 is
  not enough, depth 4 is, and depth 5 gives the same.
\<close>

theorem render_texture_terminates_witness:
  "mk_rect 0 0 4 4 = mk_rect 0 0 4 4 \<and> (4 :: int) \<le> 2147483647 \<and> int_rect (mk_rect 3 1 9 5) \<and>
   contains_point (mk_rect 0 0 4 4) (left (mk_rect 3 1 9 5)) (top_y (mk_rect 3 1 9 5)) \<and>
   spans_x (mk_rect 0 0 4 4) (mk_rect 3 1 9 5) + spans_y (mk_rect 0 0 4 4) (mk_rect 3 1 9 5) = 3 \<and>
   render_texture False 3 (mk_rect 0 0 4 4) (mk_rect 3 1 9 5) (mk_rect 0 0 6 4) = None \<and>
   (\<exists>r. render_texture False 4 (mk_rect 0 0 4 4) (mk_rect 3 1 9 5) (mk_rect 0 0 6 4) = Some r \<and>
        render_texture False 5 (mk_rect 0 0 4 4) (mk_rect 3 1 9 5) (mk_rect 0 0 6 4) = Some r)"
proof -
  have 1: "int_rect (mk_rect 3 1 9 5)"
    by (simp add: int_rect_def int32_def mk_rect_def)
  have 2: "contains_point (mk_rect 0 0 4 4) (left (mk_rect 3 1 9 5)) (top_y (mk_rect 3 1 9 5))"
    by (simp add: contains_point_def mk_rect_def)
  have 3: "spans_x (mk_rect 0 0 4 4) (mk_rect 3 1 9 5) + spans_y (mk_rect 0 0 4 4) (mk_rect 3 1 9 5) = 3"
    by (simp add: spans_x_def spans_y_def get_width_Z_def get_height_Z_def mk_rect_def)
  have 4: "render_texture False 3 (mk_rect 0 0 4 4) (mk_rect 3 1 9 5) (mk_rect 0 0 6 4) = None"
    by code_simp
  from render_texture_terminates [OF refl _ _ 1 2, of False "mk_rect 0 0 6 4"] obtain r
    where "\<forall>fuel. 3 < fuel \<longrightarrow>
      render_texture False fuel (mk_rect 0 0 4 4) (mk_rect 3 1 9 5) (mk_rect 0 0 6 4) = Some r"
    unfolding 3 by auto
  then have "render_texture False 4 (mk_rect 0 0 4 4) (mk_rect 3 1 9 5) (mk_rect 0 0 6 4) = Some r"
    "render_texture False 5 (mk_rect 0 0 4 4) (mk_rect 3 1 9 5) (mk_rect 0 0 6 4) = Some r"
    by simp_all
  with 1 2 3 4 show ?thesis by (intro conjI exI [of _ r]) simp_all
qed

lemmas int_eval = mk_rect_def rect_from_size_def get_width_def get_height_def get_size_def
  empty_rect_def contains_point_def contains_rect_def positive_mod_def c_div_def
  intersect_def relative_map_def new_srcrect_def and_then_def Let_def wrap_int_def

lemma render_texture_empty_part: "render_texture True n (mk_rect 4 4 8 8) (mk_rect 4 4 2 4) d = None \<or>
           render_texture True n (mk_rect 4 4 8 8) (mk_rect 4 4 2 4) d = Some (Inr [])"
proof (cases n)
  case 0 then show ?thesis by simp
next
  case (Suc k)
  have "empty_rect (mk_rect 4 4 2 4)" by code_simp
  then show ?thesis using Suc by simp
qed

lemma render_texture_loop_body: "render_texture True (Suc n) (mk_rect 4 4 8 8) (mk_rect 0 1 2 4) (mk_rect 3 0 5 3) =
      and_then (and_then (and_then (and_then
         (render_part True n (mk_rect 4 4 8 8) (mk_rect 0 1 2 4) (mk_rect 3 0 5 3) (mk_rect 4 4 2 4) (mk_rect 4 4 2 4))
         (render_rest True n (mk_rect 4 4 8 8) (mk_rect 0 1 2 4) (mk_rect 3 0 5 3) (mk_rect 0 1 2 4)))
         (render_rest True n (mk_rect 4 4 8 8) (mk_rect 0 1 2 4) (mk_rect 3 0 5 3) (mk_rect 0 4 4 4)))
         (render_rest True n (mk_rect 4 4 8 8) (mk_rect 0 1 2 4) (mk_rect 3 0 5 3) (mk_rect 8 4 2 4)))
         (render_rest True n (mk_rect 4 4 8 8) (mk_rect 0 1 2 4) (mk_rect 3 0 5 3) (mk_rect 0 8 2 4))"
proof -
  have 1: "\<not> empty_rect (mk_rect 0 1 2 4)" "\<not> empty_rect (mk_rect 3 0 5 3)"
    "\<not> contains_rect (mk_rect 4 4 8 8) (mk_rect 0 1 2 4)" by code_simp+
  have 2: "intersect (mk_rect 0 1 2 4) (mk_rect 4 4 8 8) =
     (mk_rect 4 4 2 4, mk_rect 0 1 2 4, mk_rect 0 4 4 4, mk_rect 8 4 2 4, mk_rect 0 8 2 4)"
    by (simp add: intersect_def mk_rect_def)
  show ?thesis by (subst render_texture_unfold) (simp_all add: 1 2)
qed

lemma render_texture_loops:
  "render_texture True fuel (mk_rect 4 4 8 8) (mk_rect 0 1 2 4) (mk_rect 3 0 5 3) = None"
proof (induction fuel)
  case 0
  then show ?case by simp
next
  case (Suc n)
  have r: "relative_map True (mk_rect 0 1 2 4) (mk_rect 0 1 2 4) (mk_rect 3 0 5 3) = Inr (mk_rect 3 0 5 3)"
    "new_srcrect (mk_rect 4 4 8 8) (mk_rect 0 1 2 4) = mk_rect 0 1 2 4"
    "get_width (mk_rect 4 4 8 8) = 4" "get_height (mk_rect 4 4 8 8) = 4"
    by code_simp+
  have b: "render_rest True n (mk_rect 4 4 8 8) (mk_rect 0 1 2 4) (mk_rect 3 0 5 3) (mk_rect 0 1 2 4) = None"
    using Suc.IH by (simp add: render_rest_def render_part_def r)
  obtain d where d: "relative_map True (mk_rect 4 4 2 4) (mk_rect 0 1 2 4) (mk_rect 3 0 5 3) = Inr d"
    by (intro that [of "mk_rect 7 3 5 3"]) code_simp
  have "render_part True n (mk_rect 4 4 8 8) (mk_rect 0 1 2 4) (mk_rect 3 0 5 3) (mk_rect 4 4 2 4) (mk_rect 4 4 2 4)
        = None \<or>
        render_part True n (mk_rect 4 4 8 8) (mk_rect 0 1 2 4) (mk_rect 3 0 5 3) (mk_rect 4 4 2 4) (mk_rect 4 4 2 4)
        = Some (Inr [])"
    using render_texture_empty_part [of n d] by (simp add: render_part_def d)
  then show ?case unfolding render_texture_loop_body b by (auto simp: and_then_def)
qed

lemma render_texture_loop_entry: "render_texture True (Suc n) (mk_rect 4 4 8 8) (mk_rect 0 1 2 3) (mk_rect 3 0 5 2) =
      and_then (and_then (and_then (and_then
         (render_part True n (mk_rect 4 4 8 8) (mk_rect 0 1 2 3) (mk_rect 3 0 5 2) (mk_rect 4 4 2 3) (mk_rect 4 4 2 3))
         (render_rest True n (mk_rect 4 4 8 8) (mk_rect 0 1 2 3) (mk_rect 3 0 5 2) (mk_rect 0 1 2 4)))
         (render_rest True n (mk_rect 4 4 8 8) (mk_rect 0 1 2 3) (mk_rect 3 0 5 2) (mk_rect 0 4 4 3)))
         (render_rest True n (mk_rect 4 4 8 8) (mk_rect 0 1 2 3) (mk_rect 3 0 5 2) (mk_rect 8 4 2 3)))
         (render_rest True n (mk_rect 4 4 8 8) (mk_rect 0 1 2 3) (mk_rect 3 0 5 2) (mk_rect 0 8 2 3))"
proof -
  have 1: "\<not> empty_rect (mk_rect 0 1 2 3)" "\<not> empty_rect (mk_rect 3 0 5 2)"
    "\<not> contains_rect (mk_rect 4 4 8 8) (mk_rect 0 1 2 3)" by code_simp+
  have 2: "intersect (mk_rect 0 1 2 3) (mk_rect 4 4 8 8) =
     (mk_rect 4 4 2 3, mk_rect 0 1 2 4, mk_rect 0 4 4 3, mk_rect 8 4 2 3, mk_rect 0 8 2 3)"
    by (simp add: intersect_def mk_rect_def)
  show ?thesis by (subst render_texture_unfold) (simp_all add: 1 2)
qed

lemma render_texture_enters_loop:
  "render_texture True fuel (mk_rect 4 4 8 8) (mk_rect 0 1 2 3) (mk_rect 3 0 5 2) = None"
proof (cases fuel)
  case 0
  then show ?thesis by simp
next
  case (Suc n)
  have r: "relative_map True (mk_rect 0 1 2 4) (mk_rect 0 1 2 3) (mk_rect 3 0 5 2) = Inr (mk_rect 3 0 5 3)"
    "new_srcrect (mk_rect 4 4 8 8) (mk_rect 0 1 2 4) = mk_rect 0 1 2 4"
    "get_width (mk_rect 4 4 8 8) = 4" "get_height (mk_rect 4 4 8 8) = 4"
    by code_simp+
  have b: "render_rest True n (mk_rect 4 4 8 8) (mk_rect 0 1 2 3) (mk_rect 3 0 5 2) (mk_rect 0 1 2 4) = None"
    using render_texture_loops [of n] by (simp add: render_rest_def render_part_def r)
  obtain d where d: "relative_map True (mk_rect 4 4 2 3) (mk_rect 0 1 2 3) (mk_rect 3 0 5 2) = Inr d"
    by (intro that [of "mk_rect 7 3 5 2"]) code_simp
  have e: "empty_rect (mk_rect 4 4 2 3)" by code_simp
  have "render_texture True n (mk_rect 4 4 8 8) (mk_rect 4 4 2 3) d = None \<or>
        render_texture True n (mk_rect 4 4 8 8) (mk_rect 4 4 2 3) d = Some (Inr [])"
    using e by (cases n) simp_all
  then have "render_part True n (mk_rect 4 4 8 8) (mk_rect 0 1 2 3) (mk_rect 3 0 5 2) (mk_rect 4 4 2 3) (mk_rect 4 4 2 3)
        = None \<or>
        render_part True n (mk_rect 4 4 8 8) (mk_rect 0 1 2 3) (mk_rect 3 0 5 2) (mk_rect 4 4 2 3) (mk_rect 4 4 2 3)
        = Some (Inr [])"
    by (simp add: render_part_def d)
  then show ?thesis unfolding Suc render_texture_loop_entry b by (auto simp: and_then_def)
qed

lemma render_texture_never_returns:
  "render_texture True fuel (mk_rect 4 4 8 8) (mk_rect 5 5 10 7) (mk_rect 0 0 5 2) = None"
proof (cases fuel)
  case 0
  then show ?thesis by simp
next
  case (Suc n)
  have 1: "\<not> empty_rect (mk_rect 5 5 10 7)" "\<not> empty_rect (mk_rect 0 0 5 2)"
    "\<not> contains_rect (mk_rect 4 4 8 8) (mk_rect 5 5 10 7)" by code_simp+
  have 2: "intersect (mk_rect 5 5 10 7) (mk_rect 4 4 8 8) =
     (mk_rect 5 5 8 7, mk_rect 5 5 10 4, mk_rect 5 5 4 7, mk_rect 8 5 10 7, mk_rect 5 8 10 7)"
    by (simp add: intersect_def mk_rect_def)
  have r: "get_width (mk_rect 4 4 8 8) = 4" "get_height (mk_rect 4 4 8 8) = 4"
    "relative_map True (mk_rect 5 5 8 7) (mk_rect 5 5 10 7) (mk_rect 0 0 5 2) = Inr (mk_rect 0 0 3 2)"
    "relative_map True (mk_rect 5 5 10 4) (mk_rect 5 5 10 7) (mk_rect 0 0 5 2) = Inr (mk_rect 0 0 5 (- 1))"
    "relative_map True (mk_rect 5 5 4 7) (mk_rect 5 5 10 7) (mk_rect 0 0 5 2) = Inr (mk_rect 0 0 (- 1) 2)"
    "relative_map True (mk_rect 8 5 10 7) (mk_rect 5 5 10 7) (mk_rect 0 0 5 2) = Inr (mk_rect 3 0 5 2)"
    "new_srcrect (mk_rect 4 4 8 8) (mk_rect 5 5 10 4) = mk_rect 1 1 6 0"
    "new_srcrect (mk_rect 4 4 8 8) (mk_rect 5 5 4 7) = mk_rect 1 1 0 3"
    "new_srcrect (mk_rect 4 4 8 8) (mk_rect 8 5 10 7) = mk_rect 0 1 2 3"
    by code_simp+
  have e: "contains_rect (mk_rect 4 4 8 8) (mk_rect 5 5 8 7)" "\<not> empty_rect (mk_rect 5 5 8 7)"
    "\<not> empty_rect (mk_rect 0 0 3 2)"
    "empty_rect (mk_rect 1 1 6 0)" "empty_rect (mk_rect 1 1 0 3)"
    by code_simp+
  have p: "render_part True n (mk_rect 4 4 8 8) (mk_rect 5 5 10 7) (mk_rect 0 0 5 2) (mk_rect 5 5 8 7) (mk_rect 5 5 8 7)
      = (if n = 0 then None else Some (Inr [(mk_rect 5 5 8 7, mk_rect 0 0 3 2)]))"
    using e by (cases n) (simp_all add: render_part_def r)
  have q0: "render_rest True n (mk_rect 4 4 8 8) (mk_rect 5 5 10 7) (mk_rect 0 0 5 2) (mk_rect 5 5 10 4)
      = (if n = 0 then None else Some (Inr []))"
    using e by (cases n) (simp_all add: render_rest_def render_part_def r)
  have q1: "render_rest True n (mk_rect 4 4 8 8) (mk_rect 5 5 10 7) (mk_rect 0 0 5 2) (mk_rect 5 5 4 7)
      = (if n = 0 then None else Some (Inr []))"
    using e by (cases n) (simp_all add: render_rest_def render_part_def r)
  have q2: "render_rest True n (mk_rect 4 4 8 8) (mk_rect 5 5 10 7) (mk_rect 0 0 5 2) (mk_rect 8 5 10 7) = None"
    using render_texture_enters_loop [of n] by (simp add: render_rest_def render_part_def r)
  show ?thesis
    unfolding Suc
    by (subst render_texture_unfold) (simp_all add: 1 2 p q0 q1 q2 and_then_def)
qed

lemma render_texture_assertion_fails:
  "render_texture False (Suc (Suc k)) (mk_rect 4 4 8 8) (mk_rect 5 5 10 7) (mk_rect 0 0 5 2) = Some (Inl AssertionFailed)"
proof -
  have 1: "\<not> empty_rect (mk_rect 5 5 10 7)" "\<not> empty_rect (mk_rect 0 0 5 2)"
    "\<not> contains_rect (mk_rect 4 4 8 8) (mk_rect 5 5 10 7)"
    "contains_point (mk_rect 4 4 8 8) (left (mk_rect 5 5 10 7)) (top_y (mk_rect 5 5 10 7))" by code_simp+
  have 2: "intersect (mk_rect 5 5 10 7) (mk_rect 4 4 8 8) =
     (mk_rect 5 5 8 7, mk_rect 5 5 10 4, mk_rect 5 5 4 7, mk_rect 8 5 10 7, mk_rect 5 8 10 7)"
    by (simp add: intersect_def mk_rect_def)
  have r: "get_width (mk_rect 4 4 8 8) = 4" "get_height (mk_rect 4 4 8 8) = 4"
    "relative_map False (mk_rect 5 5 8 7) (mk_rect 5 5 10 7) (mk_rect 0 0 5 2) = Inr (mk_rect 0 0 3 2)"
    "relative_map False (mk_rect 5 5 10 4) (mk_rect 5 5 10 7) (mk_rect 0 0 5 2) = Inr (mk_rect 0 0 5 (- 1))"
    "new_srcrect (mk_rect 4 4 8 8) (mk_rect 5 5 10 4) = mk_rect 1 1 6 0"
    by code_simp+
  have e: "contains_rect (mk_rect 4 4 8 8) (mk_rect 5 5 8 7)" "\<not> empty_rect (mk_rect 5 5 8 7)"
    "\<not> empty_rect (mk_rect 0 0 3 2)"
    "contains_point (mk_rect 4 4 8 8) (left (mk_rect 5 5 8 7)) (top_y (mk_rect 5 5 8 7))"
    "\<not> contains_point (mk_rect 4 4 8 8) (left (mk_rect 1 1 6 0)) (top_y (mk_rect 1 1 6 0))"
    by code_simp+
  have p: "render_part False (Suc k) (mk_rect 4 4 8 8) (mk_rect 5 5 10 7) (mk_rect 0 0 5 2) (mk_rect 5 5 8 7) (mk_rect 5 5 8 7)
      = Some (Inr [(mk_rect 5 5 8 7, mk_rect 0 0 3 2)])"
    using e by (simp add: render_part_def r)
  have q0: "render_rest False (Suc k) (mk_rect 4 4 8 8) (mk_rect 5 5 10 7) (mk_rect 0 0 5 2) (mk_rect 5 5 10 4)
      = Some (Inl AssertionFailed)"
    using e by (simp add: render_rest_def render_part_def r)
  show ?thesis
    by (subst render_texture_unfold) (simp_all add: 1 2 p q0 and_then_def)
qed

text \<open>
  C2, the claim as the specification states it, fails: the texture rectangle has to be
  the one at the origin. With the texture rectangle
  \<open>(4, 4, 8, 8)\<close>, which has positive width and height, and the source rectangle
  \<open>(5, 5, 10, 7)\<close>, whose top-left corner lies in it, the floored modulo moves the
  remainders to the corner \<open>(0, 1)\<close>, outside the texture rectangle. A build that checks
  assertions stops at \<^verbatim>\<open>assert(imgrect.contains(srcrect.left, srcrect.top))\<close>; a build
  that does not check them never returns, whatever depth it is allowed: the remainder
  \<open>(0, 1, 2, 4)\<close> is rendered again and again.
\<close>

theorem render_texture_not_at_origin_counterexample:
  "0 < get_width (mk_rect 4 4 8 8) \<and> 0 < get_height (mk_rect 4 4 8 8) \<and>
   contains_point (mk_rect 4 4 8 8) (left (mk_rect 5 5 10 7)) (top_y (mk_rect 5 5 10 7)) \<and>
   (\<forall>fuel. render_texture True fuel (mk_rect 4 4 8 8) (mk_rect 5 5 10 7) (mk_rect 0 0 5 2) = None) \<and>
   (\<forall>fuel. render_texture False (Suc (Suc fuel)) (mk_rect 4 4 8 8) (mk_rect 5 5 10 7) (mk_rect 0 0 5 2)
      = Some (Inl AssertionFailed))"
proof -
  have "0 < get_width (mk_rect 4 4 8 8)" "0 < get_height (mk_rect 4 4 8 8)"
    "contains_point (mk_rect 4 4 8 8) (left (mk_rect 5 5 10 7)) (top_y (mk_rect 5 5 10 7))"
    by code_simp+
  then show ?thesis
    using render_texture_never_returns render_texture_assertion_fails by blast
qed

subsection \<open>The wraparound renderer tiles the source rectangle\<close>




























subsection \<open>The blend resolver\<close>

lemmas gl_consts = GL_ZERO_def GL_ONE_def GL_SRC_ALPHA_def GL_ONE_MINUS_SRC_ALPHA_def GL_DST_COLOR_def

text \<open>
  C3. \<^verbatim>\<open>blend2sdl\<close> is total. The four known pairs of factors give NONE, BLEND, ADD
  and MOD and log nothing; every other pair gives BLEND and logs exactly one warning,
  which carries the two factors.
\<close>

theorem blend2sdl_total:
  "blend2sdl \<lparr>sfactor = GL_ONE, dfactor = GL_ZERO\<rparr> = (SDL_BLENDMODE_NONE, []) \<and>
   blend2sdl \<lparr>sfactor = GL_SRC_ALPHA, dfactor = GL_ONE_MINUS_SRC_ALPHA\<rparr> = (SDL_BLENDMODE_BLEND, []) \<and>
   blend2sdl \<lparr>sfactor = GL_SRC_ALPHA, dfactor = GL_ONE\<rparr> = (SDL_BLENDMODE_ADD, []) \<and>
   blend2sdl \<lparr>sfactor = GL_DST_COLOR, dfactor = GL_ZERO\<rparr> = (SDL_BLENDMODE_MOD, []) \<and>
   ((s, d) \<notin> {(GL_ONE, GL_ZERO), (GL_SRC_ALPHA, GL_ONE_MINUS_SRC_ALPHA), (GL_SRC_ALPHA, GL_ONE),
       (GL_DST_COLOR, GL_ZERO)} \<longrightarrow>
     blend2sdl \<lparr>sfactor = s, dfactor = d\<rparr> = (SDL_BLENDMODE_BLEND, [Warn_unknown_blend s d]))"
  by (simp add: blend2sdl_def gl_consts)

theorem blend2sdl_total_witness:
  "(GL_ONE, GL_ONE) \<notin> {(GL_ONE, GL_ZERO), (GL_SRC_ALPHA, GL_ONE_MINUS_SRC_ALPHA), (GL_SRC_ALPHA, GL_ONE),
       (GL_DST_COLOR, GL_ZERO)} \<and>
   blend2sdl \<lparr>sfactor = GL_ONE, dfactor = GL_ONE\<rparr> = (SDL_BLENDMODE_BLEND, [Warn_unknown_blend GL_ONE GL_ONE])"
proof -
  have 1: "(GL_ONE, GL_ONE) \<notin> {(GL_ONE, GL_ZERO), (GL_SRC_ALPHA, GL_ONE_MINUS_SRC_ALPHA),
      (GL_SRC_ALPHA, GL_ONE), (GL_DST_COLOR, GL_ZERO)}"
    by (simp add: gl_consts)
  with blend2sdl_total [of GL_ONE GL_ONE] show ?thesis by blast
qed

subsection \<open>Truncation of floats\<close>






lemma floor_rat_numeral_div: "\<lfloor>numeral a / numeral b :: rat\<rfloor> = numeral a div numeral b"
  by (metis floor_divide_of_int_eq of_int_numeral)

lemma upt_3: "[0..<3] = [0, 1, 2]"
  by (simp add: upt_rec numeral_3_eq_3)

subsection \<open>The gradient stepper\<close>


























subsection \<open>Filled rectangles\<close>




subsection \<open>Clearing\<close>

text \<open>
  The calls \<^verbatim>\<open>clear\<close> makes. With a clip rectangle stored it sets the colour, switches
  blending off and fills the stored rectangle; with none stored it sets the colour and
  calls \<^verbatim>\<open>SDL_RenderClear\<close>. The stored rectangle is the one \<^verbatim>\<open>set_clip_rect\<close> was last
  called with, and \<^verbatim>\<open>clear_clip_rect\<close> removes it. Which pixels of the render target
  these calls change is decided inside SDL.
\<close>

lemma clear_calls:
  "clear \<lparr>m_cliprect = Some cliprect\<rparr> color =
     [SDL_SetRenderDrawColor (r8 color) (g8 color) (b8 color) (a8 color),
      SDL_SetRenderDrawBlendMode SDL_BLENDMODE_NONE,
      SDL_RenderFillRect cliprect] \<and>
   clear \<lparr>m_cliprect = None\<rparr> color =
     [SDL_SetRenderDrawColor (r8 color) (g8 color) (b8 color) (a8 color), SDL_RenderClear] \<and>
   clear (fst (set_clip_rect painter rect ret sdl_error)) color =
     [SDL_SetRenderDrawColor (r8 color) (g8 color) (b8 color) (a8 color),
      SDL_SetRenderDrawBlendMode SDL_BLENDMODE_NONE,
      SDL_RenderFillRect \<lparr>sdl_x = left rect, sdl_y = top_y rect,
                          sdl_w = get_width rect, sdl_h = get_height rect\<rparr>] \<and>
   clear (fst (clear_clip_rect painter ret sdl_error)) color =
     [SDL_SetRenderDrawColor (r8 color) (g8 color) (b8 color) (a8 color), SDL_RenderClear]"
  by (simp add: clear_def set_clip_rect_def clear_clip_rect_def Let_def)

subsection \<open>Triangles\<close>

lemma draw_span_horizontal: "horizontal e2 \<Longrightarrow> draw_span_between_edges e1 e2 = []"
  by (simp add: draw_span_between_edges_def horizontal_def Let_def)

text \<open>
  C8. \<^verbatim>\<open>draw_span_between_edges\<close> draws no line for a pair whose short edge has no
  extent in \<open>y\<close>, and returns normally. In \<^verbatim>\<open>draw_triangle\<close>, when one of the two short
  edges is horizontal the lines drawn are those of the other pair alone.
\<close>

theorem horizontal_edge_draws_nothing:
  "(horizontal e2 \<longrightarrow> draw_span_between_edges e1 e2 = []) \<and>
   (let edges = triangle_edges request;
        longEdge = long_edge edges;
        shortEdge1 = (longEdge + 1) mod 3;
        shortEdge2 = (longEdge + 2) mod 3
    in (horizontal (edges ! shortEdge1) \<longrightarrow>
          draw_lines (draw_triangle request) =
          draw_lines (draw_span_between_edges (edges ! longEdge) (edges ! shortEdge2))) \<and>
       (horizontal (edges ! shortEdge2) \<longrightarrow>
          draw_lines (draw_triangle request) =
          draw_lines (draw_span_between_edges (edges ! longEdge) (edges ! shortEdge1))))"
  by (simp add: draw_span_horizontal draw_triangle_def Let_def draw_lines_def)

text \<open>
  A triangle with a horizontal top edge: the long edge is the second one, the pair with
  the horizontal edge draws nothing, and the two lines come from the other pair.
\<close>

theorem horizontal_edge_draws_nothing_witness:
  "(let request = \<lparr>tri_pos1 = \<lparr>vec_x = 0, vec_y = 0\<rparr>, tri_pos2 = \<lparr>vec_x = 4, vec_y = 0\<rparr>,
                    tri_pos3 = \<lparr>vec_x = 0, vec_y = 2\<rparr>,
                    tri_color = \<lparr>red = 1, green = 1, blue = 1, alpha = 1\<rparr>\<rparr>;
        edges = triangle_edges request
    in long_edge edges = 1 \<and> horizontal (edges ! 0) \<and>
       draw_span_between_edges (edges ! 1) (edges ! 0) = [] \<and>
       draw_lines (draw_triangle request) = [(4, 0, 0, 0), (2, 1, 0, 1)])"
proof -
  define request where "request =
      \<lparr>tri_pos1 = \<lparr>vec_x = 0, vec_y = 0\<rparr>, tri_pos2 = \<lparr>vec_x = 4, vec_y = 0\<rparr>,
       tri_pos3 = \<lparr>vec_x = 0, vec_y = 2\<rparr>,
       tri_color = \<lparr>red = 1, green = 1, blue = 1, alpha = 1\<rparr>\<rparr>"
  have edges: "triangle_edges request =
      [\<lparr>p1 = \<lparr>vec_x = 4, vec_y = 0\<rparr>, p2 = \<lparr>vec_x = 0, vec_y = 0\<rparr>\<rparr>,
       \<lparr>p1 = \<lparr>vec_x = 4, vec_y = 0\<rparr>, p2 = \<lparr>vec_x = 0, vec_y = 2\<rparr>\<rparr>,
       \<lparr>p1 = \<lparr>vec_x = 0, vec_y = 0\<rparr>, p2 = \<lparr>vec_x = 0, vec_y = 2\<rparr>\<rparr>]"
    by (simp add: request_def triangle_edges_def make_edge_def c_trunc_def)
  have long: "long_edge (triangle_edges request) = 1"
    by (simp add: edges long_edge_def upt_3 c_trunc_def)
  have h: "horizontal (triangle_edges request ! 0)"
    by (simp add: edges horizontal_def)
  have s: "(1 + 1) mod 3 = (2 :: nat)" "(1 + 2) mod 3 = (0 :: nat)" by simp_all
  from horizontal_edge_draws_nothing [of "triangle_edges request ! 0" "triangle_edges request ! 1" request]
  have a: "draw_span_between_edges (triangle_edges request ! 1) (triangle_edges request ! 0) = []"
    and b: "draw_lines (draw_triangle request) =
      draw_lines (draw_span_between_edges (triangle_edges request ! 1) (triangle_edges request ! 2))"
    using h by (simp_all add: Let_def long s numeral_2_eq_2)
  have "draw_lines (draw_span_between_edges (triangle_edges request ! 1) (triangle_edges request ! 2))
      = [(4, 0, 0, 0), (2, 1, 0, 1)]"
    by (simp add: edges draw_span_between_edges_def draw_lines_def c_trunc_def floor_rat_numeral_div)
  with a b long h show ?thesis unfolding request_def Let_def by simp
qed

subsection \<open>Reading a pixel back\<close>

text \<open>
  \<^verbatim>\<open>get_pixel\<close> stores a colour in the request whatever \<^verbatim>\<open>SDL_RenderReadPixels\<close>
  returned: the assignment follows the check of the return value without an
  \<^verbatim>\<open>else\<close> or a \<^verbatim>\<open>return\<close>.
\<close>

lemma get_pixel_writes_always:
  "color_ptr (fst (get_pixel m_renderer ret sdl_error (pixel0, pixel1, pixel2, pixel3) request)) =
     from_rgb888 pixel2 pixel1 pixel0"
  by (simp add: get_pixel_def)

text \<open>
  C9 fails on the code. The backend read fails (it returns -1), the warning with the
  backend's message is logged, and the colour of the request, red before the call, is
  then overwritten with what the array \<^verbatim>\<open>pixel\<close>, never written, happens to hold (here
  zeros: black).
\<close>

theorem get_pixel_failure_overwrites_color:
  "(let request = \<lparr>pixel_pos = \<lparr>vec_x = 0, vec_y = 0\<rparr>,
                    color_ptr = \<lparr>red = 1, green = 0, blue = 0, alpha = 1\<rparr>\<rparr>;
        m_renderer = \<lparr>renderer_rect = mk_rect 0 0 800 600, logical_size = \<lparr>width = 800, height = 600\<rparr>\<rparr>;
        result = get_pixel m_renderer (- 1) ''Invalid renderer'' (0, 0, 0, 0) request
    in snd result = [SDL_RenderReadPixels (Some \<lparr>sdl_x = 0, sdl_y = 0, sdl_w = 1, sdl_h = 1\<rparr>),
                     Warn_failed_to_read_pixels ''Invalid renderer''] \<and>
       color_ptr (fst result) = \<lparr>red = 0, green = 0, blue = 0, alpha = 1\<rparr> \<and>
       color_ptr (fst result) \<noteq> color_ptr request)"
  by (simp add: get_pixel_def pixel_srcrect_def from_rgb888_def rect_eval c_trunc_def Let_def)

end
